theory Spec2Isabelle
  imports Complex_Main
begin

section \<open>Python values used by \<open>data_diff/dbt.py\<close>\<close>

text \<open>
  Strings are \<open>string\<close>. \<open>str.upper\<close> is modelled on ASCII letters (column names are
  identifiers); no proof below uses more of \<open>upper\<close> than that it is a function.
\<close>

definition upper_char :: "char \<Rightarrow> char" where
  "upper_char c =
     (case map_of (zip ''abcdefghijklmnopqrstuvwxyz'' ''ABCDEFGHIJKLMNOPQRSTUVWXYZ'') c of
        None \<Rightarrow> c
      | Some u \<Rightarrow> u)"

definition upper :: "string \<Rightarrow> string" where
  "upper s = map upper_char s"

text \<open>\<open>sep.join(xs)\<close>.\<close>

fun join :: "string \<Rightarrow> string list \<Rightarrow> string" where
  "join sep [] = []"
| "join sep [x] = x"
| "join sep (x # y # ys) = x @ sep @ join sep (y # ys)"

text \<open>
  \<open>s.replace(old, new)\<close>: every non-overlapping occurrence of \<open>old\<close>, from the left.
  For an empty \<open>old\<close> Python puts \<open>new\<close> before every character and at the end.
\<close>

function str_replace :: "string \<Rightarrow> string \<Rightarrow> string \<Rightarrow> string" where
  "str_replace old new s =
     (if old = [] then new @ concat (map (\<lambda>c. c # new) s)
      else if s = [] then []
      else if take (length old) s = old
           then new @ str_replace old new (drop (length old) s)
           else hd s # str_replace old new (tl s))"
  by pat_completeness auto
termination
  by (relation "measure (\<lambda>(old, new, s). length s)") auto

declare str_replace.simps [simp del]

text \<open>\<open>str(n)\<close> for an \<open>int\<close>, and for an \<open>Optional[int]\<close> inside an f-string.\<close>

fun str_nat :: "nat \<Rightarrow> string" where
  "str_nat n =
     (if n < 10 then [''0123456789'' ! n]
      else str_nat (n div 10) @ [''0123456789'' ! (n mod 10)])"

declare str_nat.simps [simp del]

definition str_int :: "int \<Rightarrow> string" where
  "str_int i = (if i < 0 then ''-'' @ str_nat (nat (- i)) else str_nat (nat i))"

definition str_optional_int :: "int option \<Rightarrow> string" where
  "str_optional_int v = (case v of None \<Rightarrow> ''None'' | Some i \<Rightarrow> str_int i)"

text \<open>Truthiness of an \<open>Optional[str]\<close>: neither \<open>None\<close> nor empty.\<close>

definition truthy :: "string option \<Rightarrow> bool" where
  "truthy v = (case v of None \<Rightarrow> False | Some s \<Rightarrow> s \<noteq> [])"

text \<open>
  Exceptions. \<open>Error cls msg\<close> is an instance of any other subclass of \<open>Exception\<close>
  raised by a collaborator; \<open>KeyboardInterrupt\<close> and \<open>SystemExit\<close> derive from
  \<open>BaseException\<close> only, so \<open>except Exception\<close> does not catch them.
\<close>

datatype exn =
    ValueError string
  | IndexError string
  | Exception string
  | Error string string
  | KeyboardInterrupt
  | SystemExit

fun isinstance_Exception :: "exn \<Rightarrow> bool" where
  "isinstance_Exception KeyboardInterrupt = False"
| "isinstance_Exception SystemExit = False"
| "isinstance_Exception _ = True"

section \<open>Printed text\<close>

text \<open>
  The formatting helpers of \<open>data_diff/utils.py\<close> are not part of the sources at hand.
  A printed string is kept as the list of its pieces, in order: literal text, and the
  calls of those helpers with the arguments they receive. The local runner passes a set
  of column names to the column templates, the remote runner a list.
\<close>

datatype columns = Column_set "string set" | Column_list "string list"

datatype piece =
    Str string
  | Columns_added_template columns
  | Columns_removed_template columns
  | Columns_type_changed_template columns
  | No_differences_template
  | Dbt_diff_string_template int int int string "string \<rightharpoonup> string" string

type_synonym output_str = "piece list"

definition diff_output_base :: "string \<Rightarrow> string \<Rightarrow> output_str" where
  "diff_output_base dev_path prod_path =
     [Str (''\<newline>[green]'' @ prod_path @ '' <> '' @ dev_path @ ''[/] \<newline>'')]"

section \<open>Resolved variables of one model\<close>

text \<open>
  What the project parser hands over (\<open>data_diff/dbt_parser.py\<close> is not part of the
  sources at hand): a model with its \<open>config\<close> and \<open>meta\<close>, the parser's attributes, and
  its two lookups, taken as total functions. A path segment may be \<open>None\<close> or empty.
\<close>

record model_config =
  database :: "string option"
  schema :: "string option"

record 'meta model =
  name :: string
  database :: "string option"
  schema :: "string option"
  alias' :: "string option"
  config :: model_config
  meta :: 'meta

record TDatadiffModelConfig =
  where_filter :: "string option"
  include_columns :: "string list"
  exclude_columns :: "string list"

record ('meta, 'u) DbtParser =
  requires_upper :: bool
  unique_columns :: 'u
  connection :: "string \<rightharpoonup> string option"
  threads :: "int option"
  get_pk_from_model :: "'meta model \<Rightarrow> 'u \<Rightarrow> string \<Rightarrow> string list"
  get_datadiff_model_config :: "'meta \<Rightarrow> TDatadiffModelConfig"

record TDiffVars =
  dev_path :: "string list"
  prod_path :: "string list"
  primary_keys :: "string list"
  connection :: "string \<rightharpoonup> string option"
  threads :: "int option"
  where_filter :: "string option"
  include_columns :: "string list"
  exclude_columns :: "string list"

section \<open>Schema reconciliation and the local runner\<close>

text \<open>
  \<open>get_schema()\<close> returns a dict from column name to a tuple whose component 1 is the
  column's type: (name, type, further details).
\<close>

type_synonym column_info = "string \<times> string \<times> int option list"
type_synonym table_schema = "string \<rightharpoonup> column_info"

definition col_type :: "column_info \<Rightarrow> string" where
  "col_type v = fst (snd v)"

definition columns_added :: "table_schema \<Rightarrow> table_schema \<Rightarrow> string set" where
  "columns_added table1_columns table2_columns = dom table1_columns - dom table2_columns"

definition columns_removed :: "table_schema \<Rightarrow> table_schema \<Rightarrow> string set" where
  "columns_removed table1_columns table2_columns = dom table2_columns - dom table1_columns"

definition columns_type_changed :: "table_schema \<Rightarrow> table_schema \<Rightarrow> string set" where
  "columns_type_changed table1_columns table2_columns =
     {k \<in> dom table1_columns.
        k \<in> dom table2_columns \<and>
        col_type (the (table1_columns k)) \<noteq> col_type (the (table2_columns k))}"

text \<open>Lines 211 and 225 to 237: the set that becomes \<open>extra_columns\<close>.\<close>

definition extra_columns ::
  "table_schema \<Rightarrow> table_schema \<Rightarrow> string list \<Rightarrow> string list \<Rightarrow> string list \<Rightarrow> string set"
where
  "extra_columns table1_columns table2_columns pks include exclude =
     (let column_set = dom table1_columns \<inter> dom table2_columns;
          column_set =
            (if columns_type_changed table1_columns table2_columns \<noteq> {}
             then column_set - columns_type_changed table1_columns table2_columns
             else column_set);
          column_set = column_set - set pks;
          column_set =
            (if include \<noteq> []
             then {x \<in> column_set. upper x \<in> set (map upper include)}
             else column_set);
          column_set =
            (if exclude \<noteq> []
             then {x \<in> column_set. upper x \<notin> set (map upper exclude)}
             else column_set)
      in column_set)"

text \<open>
  The collaborators of the local runner. \<open>'t\<close> is the type of table handles.
  \<open>diff_tables\<close> stands for the call with \<open>threaded=True\<close>, \<open>algorithm=JOINDIFF\<close>,
  \<open>skip_null_keys=True\<close> followed by \<open>list(diff)\<close> and \<open>diff.get_stats_string(is_dbt=True)\<close>:
  it fails, or gives the materialised rows and the statistics string.
\<close>

record 't local_env =
  connect_to_table ::
    "(string \<rightharpoonup> string option) \<Rightarrow> string \<Rightarrow> string list \<Rightarrow> int option \<Rightarrow> exn + 't"
  get_schema :: "'t \<Rightarrow> exn + table_schema"
  diff_tables ::
    "'t \<Rightarrow> 't \<Rightarrow> string set \<Rightarrow> string option \<Rightarrow> exn + (string \<times> string list) list \<times> string"

section \<open>The remote service's documents\<close>

text \<open>
  The payload \<open>TCloudApiDataDiff\<close>, with its fields in the order of the call: both data
  source ids, \<open>table1\<close>, \<open>table2\<close>, \<open>pk_columns\<close>, \<open>filter1\<close>, \<open>filter2\<close>, the include
  list and the exclude list.
\<close>

datatype payload =
  TCloudApiDataDiff int int "string list" "string list" "string list"
    "string option" "string option" "string list" "string list"

text \<open>
  A match percentage is a Python \<open>float\<close>: a finite value, an infinity or a NaN. The
  code only compares it with \<open>100.0\<close> and prints it.
\<close>

datatype pyfloat = Finite real | PosInf | NegInf | NaN

record column_diff_stats =
  column_name :: string
  match :: pyfloat

record pks_stats =
  exclusives :: "int \<times> int"

record values_stats =
  total_rows :: int
  rows_with_differences :: int
  columns_diff_stats :: "column_diff_stats list"

record schema_stats =
  exclusive_columns :: "string list \<times> string list"
  column_type_differs :: "string list"

record diff_results =
  pks :: pks_stats
  values' :: values_stats
  schema :: schema_stats

record org_meta =
  org_id :: int
  org_name :: string
  user_id :: int

text \<open>
  Telemetry records. \<open>Start_event_json is_cloud datasource_id\<close>;
  \<open>End_event_json is_success error diff_id is_cloud org_id org_name user_id\<close>, where
  \<open>error\<close> is the value whose \<open>repr\<close> is truncated into the record. The run time and
  the constant fields of the end record are left out.
\<close>

datatype event_json =
    Start_event_json bool int
  | End_event_json bool "exn option" "int option" bool int string int

record api =
  host :: string
  create_data_diff :: "payload \<Rightarrow> exn + int option"
  poll_data_diff_results :: "int \<Rightarrow> exn + diff_results"

text \<open>
  What a run does, in order: the calls of collaborators, the printed strings and the
  log entries. \<open>Run_as_daemon_send_event_json\<close> and \<open>Run_as_daemon_cloud_diff\<close> start a
  thread on \<open>send_event_json\<close> and on the remote runner; what the thread does is not
  part of the caller's run. \<open>Thread_join i\<close> joins the \<open>i\<close>-th started remote job.
\<close>

datatype 't event =
    Connect_to_table string "string list" "int option"
  | Get_schema 't
  | Diff_tables 't 't "string set" "string option"
  | Logger_debug exn
  | Logger_error exn
  | Print output_str
  | Run_as_daemon_send_event_json event_json
  | Send_event_json event_json
  | Create_data_diff payload
  | Poll_data_diff_results int
  | Run_as_daemon_cloud_diff TDiffVars int
  | Thread_join nat

text \<open>A run: what it did, and either the exception that left it or its value.\<close>

type_synonym ('t, 'a) run = "'t event list \<times> (exn + 'a)"

text \<open>\<open>_local_diff\<close>, after both schemas were fetched (lines 209 to 254).\<close>

definition local_compare ::
  "'t local_env \<Rightarrow> TDiffVars \<Rightarrow> output_str \<Rightarrow> 't \<Rightarrow> 't \<Rightarrow> table_schema \<Rightarrow> table_schema
     \<Rightarrow> ('t, unit) run"
where
  "local_compare env diff_vars diff_output_str table1 table2 table1_columns table2_columns =
     (let added = columns_added table1_columns table2_columns;
          removed = columns_removed table1_columns table2_columns;
          type_changed = columns_type_changed table1_columns table2_columns;
          diff_output_str =
            diff_output_str
            @ (if added \<noteq> {} then [Columns_added_template (Column_set added)] else [])
            @ (if removed \<noteq> {} then [Columns_removed_template (Column_set removed)] else [])
            @ (if type_changed \<noteq> {}
               then [Columns_type_changed_template (Column_set type_changed)] else []);
          columns =
            extra_columns table1_columns table2_columns (primary_keys diff_vars)
              (include_columns diff_vars) (exclude_columns diff_vars);
          call = Diff_tables table1 table2 columns (where_filter diff_vars)
      in case diff_tables env table1 table2 columns (where_filter diff_vars) of
           Inl ex \<Rightarrow> ([call], Inl ex)
         | Inr (rows, stats_string) \<Rightarrow>
             if rows \<noteq> []
             then ([call, Print (diff_output_str @ [Str (stats_string @ '' \<newline>'')])], Inr ())
             else ([call, Print (diff_output_str @ [No_differences_template])], Inr ()))"

text \<open>\<open>_local_diff\<close>.\<close>

definition local_diff :: "'t local_env \<Rightarrow> TDiffVars \<Rightarrow> ('t, unit) run" where
  "local_diff env diff_vars =
     (let dev_qualified_str = join ''.'' (dev_path diff_vars);
          prod_qualified_str = join ''.'' (prod_path diff_vars);
          diff_output_str = diff_output_base dev_qualified_str prod_qualified_str;
          connect1 = Connect_to_table dev_qualified_str (primary_keys diff_vars) (threads diff_vars);
          connect2 = Connect_to_table prod_qualified_str (primary_keys diff_vars) (threads diff_vars)
      in case connect_to_table env (connection diff_vars) dev_qualified_str
                (primary_keys diff_vars) (threads diff_vars) of
           Inl ex \<Rightarrow> ([connect1], Inl ex)
         | Inr table1 \<Rightarrow>
        (case connect_to_table env (connection diff_vars) prod_qualified_str
                (primary_keys diff_vars) (threads diff_vars) of
           Inl ex \<Rightarrow> ([connect1, connect2], Inl ex)
         | Inr table2 \<Rightarrow>
        (case get_schema env table1 of
           Inl ex \<Rightarrow> ([connect1, connect2, Get_schema table1], Inl ex)
         | Inr table1_columns \<Rightarrow>
        (case get_schema env table2 of
           Inl ex \<Rightarrow>
             if isinstance_Exception ex
             then ([connect1, connect2, Get_schema table1, Get_schema table2, Logger_debug ex,
                    Print (diff_output_str
                           @ [Str ''[red]New model or no access to prod table.[/] \<newline>''])],
                   Inr ())
             else ([connect1, connect2, Get_schema table1, Get_schema table2], Inl ex)
         | Inr table2_columns \<Rightarrow>
             (let (events, result) =
                    local_compare env diff_vars diff_output_str table1 table2
                      table1_columns table2_columns
              in ([connect1, connect2, Get_schema table1, Get_schema table2] @ events,
                  result))))))"

section \<open>Resolving the variables of a model\<close>

text \<open>\<open>[x for x in segments if x]\<close>, upper-cased when the connection requires it.\<close>

definition qualified_list :: "bool \<Rightarrow> string option list \<Rightarrow> string list" where
  "qualified_list to_upper segments =
     (if to_upper then map (\<lambda>x. upper (the x)) (filter truthy segments)
      else map the (filter truthy segments))"

text \<open>Lines 150 to 165: the prod schema, or the \<open>ValueError\<close> of line 156.\<close>

definition resolve_prod_schema ::
  "string option \<Rightarrow> string option \<Rightarrow> 'meta model \<Rightarrow> exn + string option"
where
  "resolve_prod_schema config_prod_schema config_prod_custom_schema model =
     (let dev_schema = model.schema model in
      if truthy config_prod_schema then
        (let custom_schema = model_config.schema (config model) in
         if truthy custom_schema then
           if \<not> truthy config_prod_custom_schema then
             Inl (ValueError
               (''Found a custom schema on model '' @ name model
                @ '', but no value for\<newline>vars:\<newline>  data_diff:\<newline>    prod_custom_schema:\<newline>Please set a value!\<newline>''
                @ ''For more details see: https://docs.datafold.com/development_testing/open_source''))
           else Inr (Some (str_replace ''<custom_schema>'' (the custom_schema)
                             (the config_prod_custom_schema)))
         else Inr config_prod_schema)
      else Inr dev_schema)"

text \<open>\<open>_get_diff_vars\<close>.\<close>

definition get_diff_vars ::
  "('meta, 'u) DbtParser \<Rightarrow> string option \<Rightarrow> string option \<Rightarrow> string option \<Rightarrow> 'meta model
     \<Rightarrow> exn + TDiffVars"
where
  "get_diff_vars dbt_parser config_prod_database config_prod_schema config_prod_custom_schema
       model =
     (let dev_database = model.database model;
          dev_schema = model.schema model;
          pks = get_pk_from_model dbt_parser model (unique_columns dbt_parser) ''primary-key'';
          prod_database =
            (if truthy (model_config.database (config model))
             then model_config.database (config model)
             else if truthy config_prod_database then config_prod_database
             else dev_database)
      in case resolve_prod_schema config_prod_schema config_prod_custom_schema model of
           Inl ex \<Rightarrow> Inl ex
         | Inr prod_schema \<Rightarrow>
             (let dev_qualified_list =
                    qualified_list (requires_upper dbt_parser)
                      [dev_database, dev_schema, alias' model];
                  prod_qualified_list =
                    qualified_list (requires_upper dbt_parser)
                      [prod_database, prod_schema, alias' model];
                  pks = (if requires_upper dbt_parser then map upper pks else pks);
                  datadiff_model_config = get_datadiff_model_config dbt_parser (meta model)
              in Inr \<lparr>dev_path = dev_qualified_list,
                      prod_path = prod_qualified_list,
                      primary_keys = pks,
                      connection = DbtParser.connection dbt_parser,
                      threads = DbtParser.threads dbt_parser,
                      where_filter = TDatadiffModelConfig.where_filter datadiff_model_config,
                      include_columns =
                        TDatadiffModelConfig.include_columns datadiff_model_config,
                      exclude_columns =
                        TDatadiffModelConfig.exclude_columns datadiff_model_config\<rparr>))"

section \<open>The remote runner\<close>

text \<open>
  What the remote runner reads from its module: the process-wide telemetry flag, the
  outcome of a direct call of \<open>send_event_json\<close> (\<open>data_diff/tracking.py\<close> is not part
  of the sources at hand, so the call is a collaborator's: it returns or raises), and
  \<open>str\<close> on a \<open>float\<close>.
\<close>

record cloud_env =
  is_tracking_enabled :: bool
  send_event_json :: "event_json \<Rightarrow> exn + unit"
  str_float :: "pyfloat \<Rightarrow> string"


text \<open>Lines 326 to 328: a dict comprehension, a later entry replacing an earlier one.\<close>

definition diff_percent_list ::
  "(pyfloat \<Rightarrow> string) \<Rightarrow> column_diff_stats list \<Rightarrow> (string \<rightharpoonup> string)"
where
  "diff_percent_list to_str stats =
     foldl (\<lambda>d x. if match x \<noteq> Finite 100 then d(column_name x \<mapsto> to_str (match x) @ ''%'') else d)
       Map.empty stats"

text \<open>Lines 320 to 355: the report printed for a result document.\<close>

definition cloud_report ::
  "(pyfloat \<Rightarrow> string) \<Rightarrow> output_str \<Rightarrow> string \<Rightarrow> diff_results \<Rightarrow> output_str"
where
  "cloud_report to_str diff_output_str diff_url diff_results =
     (let rows_added_count = snd (exclusives (pks diff_results));
          rows_removed_count = fst (exclusives (pks diff_results));
          rows_updated = rows_with_differences (values' diff_results);
          total = total_rows (values' diff_results);
          rows_unchanged = total - rows_updated;
          percents = diff_percent_list to_str (columns_diff_stats (values' diff_results));
          added = snd (exclusive_columns (schema diff_results));
          removed = fst (exclusive_columns (schema diff_results));
          column_type_changes = column_type_differs (schema diff_results);
          diff_output_str =
            diff_output_str
            @ (if added \<noteq> [] then [Columns_added_template (Column_list added)] else [])
            @ (if removed \<noteq> [] then [Columns_removed_template (Column_list removed)] else [])
            @ (if column_type_changes \<noteq> []
               then [Columns_type_changed_template (Column_list column_type_changes)] else [])
      in if rows_added_count \<noteq> 0 \<or> rows_removed_count \<noteq> 0 \<or> rows_updated \<noteq> 0
         then diff_output_str
              @ [Str (''\<newline>'' @ diff_url @ ''\<newline> ''),
                 Dbt_diff_string_template rows_added_count rows_removed_count rows_updated
                   (str_int rows_unchanged) percents ''Value Match Percent:'',
                 Str '' \<newline>'']
         else diff_output_str
              @ [Str (''\<newline>'' @ diff_url @ ''\<newline>''), No_differences_template,
                 Str ''\<newline>''])"

definition overview_url :: "api \<Rightarrow> int option \<Rightarrow> string" where
  "overview_url a diff_id = host a @ ''/datadiffs/'' @ str_optional_int diff_id @ ''/overview''"

text \<open>The variables the \<open>finally\<close> block reads after the \<open>try\<close> statement.\<close>

record cloud_state =
  error :: "exn option"
  diff_id :: "int option"
  diff_output_str :: output_str

text \<open>
  Lines 310 to 358: the body of the \<open>try\<close> with its \<open>except BaseException\<close>, which
  catches whatever the body raises and keeps it in \<open>error\<close>. \<open>dev_path[-1]\<close> raises
  on an empty path.
\<close>

definition cloud_try ::
  "cloud_env \<Rightarrow> api \<Rightarrow> TDiffVars \<Rightarrow> payload \<Rightarrow> output_str \<Rightarrow> 't event list \<times> cloud_state"
where
  "cloud_try env a diff_vars request out =
     (case create_data_diff a request of
        Inl ex \<Rightarrow>
          ([Create_data_diff request],
           \<lparr>error = Some ex, diff_id = None, diff_output_str = out\<rparr>)
      | Inr new_id \<Rightarrow>
          (let diff_url = overview_url a new_id in
           if dev_path diff_vars = [] then
             ([Create_data_diff request],
              \<lparr>error = Some (IndexError ''list index out of range''), diff_id = new_id,
               diff_output_str = out\<rparr>)
           else
             (let url_line = Print [Str (last (dev_path diff_vars) @ '': '' @ diff_url)] in
              case new_id of
                None \<Rightarrow>
                  ([Create_data_diff request, url_line],
                   \<lparr>error = Some (Exception ''Api response did not contain a diff_id''),
                    diff_id = new_id, diff_output_str = out\<rparr>)
              | Some i \<Rightarrow>
                  (case poll_data_diff_results a i of
                     Inl ex \<Rightarrow>
                       ([Create_data_diff request, url_line, Poll_data_diff_results i],
                        \<lparr>error = Some ex, diff_id = new_id, diff_output_str = out\<rparr>)
                   | Inr diff_results \<Rightarrow>
                       (let report = cloud_report (str_float env) out diff_url diff_results in
                        ([Create_data_diff request, url_line, Poll_data_diff_results i,
                          Print report],
                         \<lparr>error = None, diff_id = new_id, diff_output_str = report\<rparr>))))))"

text \<open>
  Lines 359 to 387: the \<open>finally\<close> block. The end record is sent by a direct call; when
  that call raises, the exception leaves the block. \<open>if diff_id\<close> is false for \<open>None\<close>
  and for \<open>0\<close>.
\<close>

definition cloud_finally ::
  "cloud_env \<Rightarrow> api \<Rightarrow> org_meta \<Rightarrow> cloud_state \<Rightarrow> ('t, unit) run"
where
  "cloud_finally env a meta_of_org st =
     (let (sent, outcome) =
            (if is_tracking_enabled env then
               (let event =
                      End_event_json (error st = None) (error st) (diff_id st) True
                        (org_id meta_of_org) (org_name meta_of_org) (user_id meta_of_org)
                in ([Send_event_json event], send_event_json env event))
             else ([], Inr ()))
      in case outcome of
           Inl ex \<Rightarrow> (sent, Inl ex)
         | Inr _ \<Rightarrow>
             (case error st of
                None \<Rightarrow> (sent, Inr ())
              | Some err \<Rightarrow>
                  (sent
                   @ [Print (diff_output_str st)]
                   @ (if diff_id st \<noteq> None \<and> diff_id st \<noteq> Some 0
                      then [Print [Str (overview_url a (diff_id st) @ '' \<newline>'')]] else [])
                   @ [Logger_error err],
                   Inr ())))"

text \<open>Lines 290 to 300: prod is \<open>table1\<close>, dev is \<open>table2\<close>.\<close>

definition cloud_payload :: "TDiffVars \<Rightarrow> int \<Rightarrow> payload" where
  "cloud_payload diff_vars datasource_id =
     TCloudApiDataDiff datasource_id datasource_id (prod_path diff_vars) (dev_path diff_vars)
       (primary_keys diff_vars) (where_filter diff_vars) (where_filter diff_vars)
       (include_columns diff_vars) (exclude_columns diff_vars)"

text \<open>\<open>_cloud_diff\<close>.\<close>

definition cloud_diff ::
  "cloud_env \<Rightarrow> TDiffVars \<Rightarrow> int \<Rightarrow> api \<Rightarrow> org_meta \<Rightarrow> ('t, unit) run"
where
  "cloud_diff env diff_vars datasource_id a meta_of_org =
     (let out =
            diff_output_base (join ''.'' (dev_path diff_vars)) (join ''.'' (prod_path diff_vars));
          request = cloud_payload diff_vars datasource_id;
          started =
            (if is_tracking_enabled env
             then [Run_as_daemon_send_event_json (Start_event_json True datasource_id)]
             else []);
          (tried, st) = cloud_try env a diff_vars request out;
          (ended, result) = cloud_finally env a meta_of_org st
      in (started @ tried @ ended, result))"

section \<open>The dispatcher\<close>

text \<open>
  The loop of \<open>dbt_diff\<close> over the models (lines 106 to 121). \<open>diff_threads\<close> counts
  the remote jobs started so far. A local job runs in line: its exception leaves the
  loop. A remote job is started on a thread of its own.
\<close>

fun dbt_diff_models ::
  "'t local_env \<Rightarrow> ('meta, 'u) DbtParser \<Rightarrow> string option \<Rightarrow> string option \<Rightarrow> string option
     \<Rightarrow> bool \<Rightarrow> int \<Rightarrow> 'meta model list \<Rightarrow> nat \<Rightarrow> ('t, nat) run"
where
  "dbt_diff_models env dbt_parser config_prod_database config_prod_schema
       config_prod_custom_schema is_cloud datasource_id [] diff_threads =
     ([], Inr diff_threads)"
| "dbt_diff_models env dbt_parser config_prod_database config_prod_schema
       config_prod_custom_schema is_cloud datasource_id (model # models) diff_threads =
     (case get_diff_vars dbt_parser config_prod_database config_prod_schema
             config_prod_custom_schema model of
        Inl ex \<Rightarrow> ([], Inl ex)
      | Inr diff_vars \<Rightarrow>
          if primary_keys diff_vars \<noteq> [] then
            if is_cloud then
              (let (events, result) =
                     dbt_diff_models env dbt_parser config_prod_database config_prod_schema
                       config_prod_custom_schema is_cloud datasource_id models
                       (Suc diff_threads)
               in (Run_as_daemon_cloud_diff diff_vars datasource_id # events, result))
            else
              (case local_diff env diff_vars of
                 (finished, Inl ex) \<Rightarrow> (finished, Inl ex)
               | (finished, Inr _) \<Rightarrow>
                   (let (events, result) =
                          dbt_diff_models env dbt_parser config_prod_database
                            config_prod_schema config_prod_custom_schema is_cloud
                            datasource_id models diff_threads
                    in (finished @ events, result)))
          else
            (let (events, result) =
                   dbt_diff_models env dbt_parser config_prod_database config_prod_schema
                     config_prod_custom_schema is_cloud datasource_id models diff_threads
             in (Print
                   (diff_output_base (join ''.'' (dev_path diff_vars))
                      (join ''.'' (prod_path diff_vars))
                    @ [Str ''Skipped due to unknown primary key. Add uniqueness tests, meta, or tags.\<newline>''])
                 # events,
                 result)))"

text \<open>
  \<open>dbt_diff\<close> from its loop on (lines 106 to 126), given what lines 56 to 104 set up:
  the parser, the models, the project's variables, the mode and the data source id.
  After the loop every started thread is joined.
\<close>

definition dbt_diff ::
  "'t local_env \<Rightarrow> ('meta, 'u) DbtParser \<Rightarrow> string option \<Rightarrow> string option \<Rightarrow> string option
     \<Rightarrow> bool \<Rightarrow> int \<Rightarrow> 'meta model list \<Rightarrow> ('t, unit) run"
where
  "dbt_diff env dbt_parser config_prod_database config_prod_schema config_prod_custom_schema
       is_cloud datasource_id models =
     (case dbt_diff_models env dbt_parser config_prod_database config_prod_schema
             config_prod_custom_schema is_cloud datasource_id models 0 of
        (events, Inl ex) \<Rightarrow> (events, Inl ex)
      | (events, Inr diff_threads) \<Rightarrow>
          (events @ map Thread_join [0..<diff_threads], Inr ()))"

section \<open>Example inputs\<close>

text \<open>
  A dev table with columns \<open>id\<close>, \<open>a\<close>, \<open>b\<close>, \<open>d\<close> and a prod table with columns \<open>id\<close>,
  \<open>a\<close>, \<open>c\<close>, \<open>d\<close>, where \<open>d\<close> changed its type; table handles are the qualified names,
  and the comparison finds no differing row.
\<close>

definition example_dev_schema :: table_schema where
  "example_dev_schema =
     [''id'' \<mapsto> (''id'', ''int'', []), ''a'' \<mapsto> (''a'', ''text'', []),
      ''b'' \<mapsto> (''b'', ''text'', []), ''d'' \<mapsto> (''d'', ''int'', [])]"

definition example_prod_schema :: table_schema where
  "example_prod_schema =
     [''id'' \<mapsto> (''id'', ''int'', []), ''a'' \<mapsto> (''a'', ''text'', []),
      ''c'' \<mapsto> (''c'', ''text'', []), ''d'' \<mapsto> (''d'', ''bigint'', [])]"

definition example_vars :: TDiffVars where
  "example_vars =
     \<lparr>dev_path = [''db'', ''dev'', ''m''], prod_path = [''db'', ''prod'', ''m''],
      primary_keys = [''id''], connection = Map.empty, threads = None, where_filter = None,
      include_columns = [], exclude_columns = []\<rparr>"

definition example_local_env :: "string local_env" where
  "example_local_env =
     \<lparr>connect_to_table = (\<lambda>c path ks n. Inr path),
      get_schema = (\<lambda>t. if t = ''db.dev.m'' then Inr example_dev_schema
                         else if t = ''db.prod.m'' then Inr example_prod_schema
                         else Inl (Error ''ProgrammingError'' ''relation does not exist'')),
      diff_tables = (\<lambda>t1 t2 cols w. Inr ([], ''''))\<rparr>"

text \<open>What the local runner does on that example.\<close>

definition example_local_events :: "string event list" where
  "example_local_events =
     [Connect_to_table ''db.dev.m'' [''id''] None, Connect_to_table ''db.prod.m'' [''id''] None,
      Get_schema ''db.dev.m'', Get_schema ''db.prod.m'',
      Diff_tables ''db.dev.m'' ''db.prod.m'' {''a''} None,
      Print [Str ''\<newline>[green]db.prod.m <> db.dev.m[/] \<newline>'',
             Columns_added_template (Column_set {''b''}),
             Columns_removed_template (Column_set {''c''}),
             Columns_type_changed_template (Column_set {''d''}),
             No_differences_template]]"

text \<open>The same tables when the prod table cannot be read, when the fetch of its schema is
  interrupted, and when the dev table cannot be read.\<close>

definition example_local_env_no_prod :: "string local_env" where
  "example_local_env_no_prod =
     example_local_env
       \<lparr>get_schema :=
          (\<lambda>t. if t = ''db.dev.m'' then Inr example_dev_schema
                else Inl (Error ''ProgrammingError'' ''relation does not exist''))\<rparr>"

definition example_local_env_interrupted :: "string local_env" where
  "example_local_env_interrupted =
     example_local_env
       \<lparr>get_schema :=
          (\<lambda>t. if t = ''db.dev.m'' then Inr example_dev_schema else Inl KeyboardInterrupt)\<rparr>"

definition example_local_env_no_dev :: "string local_env" where
  "example_local_env_no_dev =
     example_local_env
       \<lparr>get_schema := (\<lambda>t. Inl (Error ''ProgrammingError'' ''relation does not exist''))\<rparr>"

text \<open>
  A project whose models have the primary key \<open>id\<close>, but for the model \<open>nokey\<close>; a model
  without a custom schema, one with the custom schema \<open>marketing\<close>, and one without a key.
\<close>

definition example_parser :: "(unit, unit) DbtParser" where
  "example_parser =
     \<lparr>requires_upper = False, unique_columns = (), DbtParser.connection = Map.empty,
      DbtParser.threads = None,
      get_pk_from_model = (\<lambda>m u tag. if name m = ''nokey'' then [] else [''id'']),
      get_datadiff_model_config =
        (\<lambda>m. \<lparr>TDatadiffModelConfig.where_filter = None,
               TDatadiffModelConfig.include_columns = [],
               TDatadiffModelConfig.exclude_columns = []\<rparr>)\<rparr>"

definition example_model :: "unit model" where
  "example_model =
     \<lparr>name = ''m'', model.database = Some ''db'', model.schema = Some ''dev'',
      alias' = Some ''m'',
      config = \<lparr>model_config.database = None, model_config.schema = None\<rparr>, meta = ()\<rparr>"

definition example_custom_model :: "unit model" where
  "example_custom_model =
     example_model
       \<lparr>config := \<lparr>model_config.database = None, model_config.schema = Some ''marketing''\<rparr>\<rparr>"

definition example_model_no_key :: "unit model" where
  "example_model_no_key = example_model\<lparr>name := ''nokey'', alias' := Some ''nokey''\<rparr>"

text \<open>
  A result document of the remote service with differing rows, one whose only column
  statistic is above 100, and the service's client: as it answers, when it returns no
  id, when it returns the second document, and when polling fails. Telemetry is
  enabled; its records are delivered, or their delivery fails inside the sink.
\<close>

definition example_results :: diff_results where
  "example_results =
     \<lparr>pks = \<lparr>exclusives = (2, 3)\<rparr>,
      values' = \<lparr>total_rows = 100, rows_with_differences = 5,
                 columns_diff_stats =
                   [\<lparr>column_name = ''a'', match = Finite 95\<rparr>,
                    \<lparr>column_name = ''e'', match = Finite 100\<rparr>]\<rparr>,
      schema = \<lparr>exclusive_columns = ([''c''], [''b'']), column_type_differs = [''d'']\<rparr>\<rparr>"

definition example_overfull_results :: diff_results where
  "example_overfull_results =
     example_results
       \<lparr>values' := \<lparr>total_rows = 100, rows_with_differences = 5,
                     columns_diff_stats = [\<lparr>column_name = ''a'', match = Finite 150\<rparr>]\<rparr>\<rparr>"

definition example_str_float :: "pyfloat \<Rightarrow> string" where
  "example_str_float f =
     (if f = Finite 95 then ''95.0'' else if f = Finite 150 then ''150.0'' else ''100.0'')"

definition example_cloud_env :: cloud_env where
  "example_cloud_env =
     \<lparr>is_tracking_enabled = True, send_event_json = (\<lambda>e. Inr ()),
      str_float = example_str_float\<rparr>"



definition example_api :: api where
  "example_api =
     \<lparr>host = ''https://app.datafold.com'', create_data_diff = (\<lambda>p. Inr (Some 7)),
      poll_data_diff_results = (\<lambda>i. Inr example_results)\<rparr>"

definition example_api_no_id :: api where
  "example_api_no_id = example_api\<lparr>create_data_diff := (\<lambda>p. Inr None)\<rparr>"

definition example_api_overfull :: api where
  "example_api_overfull =
     example_api\<lparr>poll_data_diff_results := (\<lambda>i. Inr example_overfull_results)\<rparr>"


definition example_org :: org_meta where
  "example_org = \<lparr>org_id = 1, org_name = ''acme'', user_id = 2\<rparr>"

section \<open>Facts about the examples\<close>

lemma example_common_columns:
  "dom example_dev_schema \<inter> dom example_prod_schema = {''id'', ''a'', ''d''}"
  by (auto simp: example_dev_schema_def example_prod_schema_def)

lemma example_type_changed:
  "columns_type_changed example_dev_schema example_prod_schema = {''d''}"
  by (auto simp: example_dev_schema_def example_prod_schema_def columns_type_changed_def
      col_type_def split: if_splits)

lemma example_added: "columns_added example_dev_schema example_prod_schema = {''b''}"
  by (auto simp: example_dev_schema_def example_prod_schema_def columns_added_def
      split: if_splits)

lemma example_removed: "columns_removed example_dev_schema example_prod_schema = {''c''}"
  by (auto simp: example_dev_schema_def example_prod_schema_def columns_removed_def
      split: if_splits)

lemma example_extra_columns:
  "extra_columns example_dev_schema example_prod_schema [''id''] [] [] = {''a''}"
  by (auto simp: extra_columns_def example_common_columns example_type_changed Let_def)

lemma example_local_diff:
  "local_diff example_local_env example_vars = (example_local_events, Inr ())"
  by (simp add: local_diff_def local_compare_def Let_def example_local_env_def example_vars_def
      example_local_events_def example_added example_removed example_type_changed
      example_extra_columns diff_output_base_def)

lemma example_get_diff_vars:
  "get_diff_vars example_parser None (Some ''prod'') None example_model = Inr example_vars"
  by (simp add: get_diff_vars_def resolve_prod_schema_def example_parser_def example_model_def
      example_vars_def truthy_def qualified_list_def Let_def)

section \<open>Schema reconciliation\<close>

text \<open>
  C2. For every pair of schema maps, dev and prod: the added columns are the dev names
  minus the prod names, the removed columns are the prod names minus the dev names, and
  the type-changed columns are among the names both schemas have.
\<close>

theorem schema_reconciliation:
  "columns_added a b = dom a - dom b \<and>
   columns_removed a b = dom b - dom a \<and>
   columns_type_changed a b \<subseteq> dom a \<inter> dom b"
  by (auto simp: columns_added_def columns_removed_def columns_type_changed_def)

section \<open>The comparable column set\<close>

lemma extra_columns_props:
  "extra_columns a b ks inc exc \<inter> set ks = {}"
  "extra_columns a b ks inc exc \<inter> columns_type_changed a b = {}"
  "x \<in> extra_columns a b ks inc exc \<Longrightarrow> y \<in> set exc \<Longrightarrow> upper x \<noteq> upper y"
  "inc \<noteq> [] \<Longrightarrow>
     (\<And>x y. x \<in> dom a \<inter> dom b - columns_type_changed a b - set ks \<Longrightarrow> y \<in> set inc
        \<Longrightarrow> upper x \<noteq> upper y) \<Longrightarrow>
     extra_columns a b ks inc exc = {}"
  by (auto simp: extra_columns_def Let_def split: if_splits)

lemma local_diff_calls_diff_tables:
  assumes "connect_to_table env (connection dv) (join ''.'' (dev_path dv)) (primary_keys dv)
             (threads dv) = Inr t1"
    and "connect_to_table env (connection dv) (join ''.'' (prod_path dv)) (primary_keys dv)
           (threads dv) = Inr t2"
    and "get_schema env t1 = Inr a" and "get_schema env t2 = Inr b"
  shows "Diff_tables t1 t2
           (extra_columns a b (primary_keys dv) (include_columns dv) (exclude_columns dv))
           (where_filter dv)
         \<in> set (fst (local_diff env dv))"
    and "Diff_tables t t' c w \<in> set (fst (local_diff env dv)) \<Longrightarrow>
         c = extra_columns a b (primary_keys dv) (include_columns dv) (exclude_columns dv)"
  using assms
  by (auto simp: local_diff_def local_compare_def Let_def
      split: sum.splits if_splits prod.splits)

text \<open>
  C1. In a local run where both schemas were fetched, the comparison algorithm is called
  with one column set. That set has no primary-key column, no type-changed column and no
  column whose upper-cased name is the upper-cased name of an excluded column (whatever
  the include list says), and it is empty when the include list is non-empty and no
  column left after the intersection and the two subtractions matches it.
\<close>

theorem comparable_columns_passed_to_diff_tables:
  assumes "connect_to_table env (connection dv) (join ''.'' (dev_path dv)) (primary_keys dv)
             (threads dv) = Inr t1"
    and "connect_to_table env (connection dv) (join ''.'' (prod_path dv)) (primary_keys dv)
           (threads dv) = Inr t2"
    and "get_schema env t1 = Inr a" and "get_schema env t2 = Inr b"
  shows "\<exists>cols.
     Diff_tables t1 t2 cols (where_filter dv) \<in> set (fst (local_diff env dv)) \<and>
     (\<forall>t t' c w. Diff_tables t t' c w \<in> set (fst (local_diff env dv)) \<longrightarrow> c = cols) \<and>
     cols \<inter> set (primary_keys dv) = {} \<and>
     cols \<inter> columns_type_changed a b = {} \<and>
     (\<forall>x\<in>cols. \<forall>y\<in>set (exclude_columns dv). upper x \<noteq> upper y) \<and>
     (include_columns dv \<noteq> [] \<and>
      (\<forall>x\<in>dom a \<inter> dom b - columns_type_changed a b - set (primary_keys dv).
         \<forall>y\<in>set (include_columns dv). upper x \<noteq> upper y)
      \<longrightarrow> cols = {})"
proof -
  let ?cols = "extra_columns a b (primary_keys dv) (include_columns dv) (exclude_columns dv)"
  have called: "Diff_tables t1 t2 ?cols (where_filter dv) \<in> set (fst (local_diff env dv))"
    using assms by (rule local_diff_calls_diff_tables(1))
  have only: "\<forall>t t' c w. Diff_tables t t' c w \<in> set (fst (local_diff env dv)) \<longrightarrow> c = ?cols"
    using local_diff_calls_diff_tables(2) [OF assms] by blast
  have excl: "\<forall>x\<in>?cols. \<forall>y\<in>set (exclude_columns dv). upper x \<noteq> upper y"
    using extra_columns_props(3) by blast
  have incl: "include_columns dv \<noteq> [] \<and>
      (\<forall>x\<in>dom a \<inter> dom b - columns_type_changed a b - set (primary_keys dv).
         \<forall>y\<in>set (include_columns dv). upper x \<noteq> upper y)
      \<longrightarrow> ?cols = {}"
    using extra_columns_props(4)
      [of "include_columns dv" a b "primary_keys dv" "exclude_columns dv"]
    by blast
  from called only excl incl extra_columns_props(1,2) show ?thesis by blast
qed

text \<open>
  On the example the algorithm receives exactly the column \<open>a\<close>; with the include list
  \<open>zzz\<close>, which matches no column, it receives no column.
\<close>

theorem comparable_columns_witness:
  "connect_to_table example_local_env (connection example_vars)
       (join ''.'' (dev_path example_vars)) (primary_keys example_vars) (threads example_vars)
     = Inr ''db.dev.m'' \<and>
   connect_to_table example_local_env (connection example_vars)
       (join ''.'' (prod_path example_vars)) (primary_keys example_vars) (threads example_vars)
     = Inr ''db.prod.m'' \<and>
   get_schema example_local_env ''db.dev.m'' = Inr example_dev_schema \<and>
   get_schema example_local_env ''db.prod.m'' = Inr example_prod_schema \<and>
   Diff_tables ''db.dev.m'' ''db.prod.m'' {''a''} None
     \<in> set (fst (local_diff example_local_env example_vars)) \<and>
   include_columns (example_vars\<lparr>include_columns := [''zzz'']\<rparr>) \<noteq> [] \<and>
   Diff_tables ''db.dev.m'' ''db.prod.m'' {} None
     \<in> set (fst (local_diff example_local_env (example_vars\<lparr>include_columns := [''zzz'']\<rparr>)))"
proof -
  let ?vars = "example_vars\<lparr>include_columns := [''zzz'']\<rparr>"
  have c1: "connect_to_table example_local_env (connection example_vars)
       (join ''.'' (dev_path example_vars)) (primary_keys example_vars) (threads example_vars)
     = Inr ''db.dev.m''"
    by (simp add: example_local_env_def example_vars_def)
  have c2: "connect_to_table example_local_env (connection example_vars)
       (join ''.'' (prod_path example_vars)) (primary_keys example_vars) (threads example_vars)
     = Inr ''db.prod.m''"
    by (simp add: example_local_env_def example_vars_def)
  have c1': "connect_to_table example_local_env (connection ?vars)
       (join ''.'' (dev_path ?vars)) (primary_keys ?vars) (threads ?vars) = Inr ''db.dev.m''"
    by (simp add: example_local_env_def example_vars_def)
  have c2': "connect_to_table example_local_env (connection ?vars)
       (join ''.'' (prod_path ?vars)) (primary_keys ?vars) (threads ?vars) = Inr ''db.prod.m''"
    by (simp add: example_local_env_def example_vars_def)
  have s1: "get_schema example_local_env ''db.dev.m'' = Inr example_dev_schema"
    by (simp add: example_local_env_def)
  have s2: "get_schema example_local_env ''db.prod.m'' = Inr example_prod_schema"
    by (simp add: example_local_env_def)
  from comparable_columns_passed_to_diff_tables [OF c1 c2 s1 s2]
  obtain cols where
    passed: "Diff_tables ''db.dev.m'' ''db.prod.m'' cols (where_filter example_vars)
               \<in> set (fst (local_diff example_local_env example_vars))"
    and only: "\<forall>t t' c w.
                 Diff_tables t t' c w \<in> set (fst (local_diff example_local_env example_vars))
                 \<longrightarrow> c = cols"
    by blast
  have "Diff_tables ''db.dev.m'' ''db.prod.m'' {''a''} None
          \<in> set (fst (local_diff example_local_env example_vars))"
    by (simp add: example_local_diff example_local_events_def)
  with only have "cols = {''a''}" by blast
  with passed have first: "Diff_tables ''db.dev.m'' ''db.prod.m'' {''a''} None
     \<in> set (fst (local_diff example_local_env example_vars))"
    by (simp add: example_vars_def)
  have nonempty: "include_columns ?vars \<noteq> []" by simp
  have unmatched:
    "\<forall>x\<in>dom example_dev_schema \<inter> dom example_prod_schema
          - columns_type_changed example_dev_schema example_prod_schema
          - set (primary_keys ?vars).
       \<forall>y\<in>set (include_columns ?vars). upper x \<noteq> upper y"
    by (auto simp: example_common_columns example_type_changed example_vars_def upper_def
        upper_char_def)
  from comparable_columns_passed_to_diff_tables [OF c1' c2' s1 s2] nonempty unmatched
  have second: "Diff_tables ''db.dev.m'' ''db.prod.m'' {} None
     \<in> set (fst (local_diff example_local_env ?vars))"
    by (auto simp: example_vars_def)
  from c1 c2 s1 s2 first nonempty second show ?thesis by blast
qed

section \<open>Schema fetch failures in a local run\<close>

text \<open>
  C4, as the claim states it, fails when the fetch of the prod schema raises an exception
  that is not an \<open>Exception\<close>: a \<open>KeyboardInterrupt\<close> raised there leaves the job, and
  nothing is printed.
\<close>

theorem prod_schema_interrupt_counterexample:
  "get_schema example_local_env_interrupted ''db.dev.m'' = Inr example_dev_schema \<and>
   get_schema example_local_env_interrupted ''db.prod.m'' = Inl KeyboardInterrupt \<and>
   local_diff example_local_env_interrupted example_vars =
     ([Connect_to_table ''db.dev.m'' [''id''] None, Connect_to_table ''db.prod.m'' [''id''] None,
       Get_schema ''db.dev.m'', Get_schema ''db.prod.m''],
      Inl KeyboardInterrupt)"
  by (simp add: local_diff_def Let_def example_local_env_interrupted_def example_local_env_def
      example_vars_def)

text \<open>
  C4, amended. With both handles open: an exception raised by the fetch of the dev schema
  leaves the job, whatever it is. An \<open>Exception\<close> raised by the fetch of the prod schema
  is logged at debug level and the job returns after printing the header followed by
  the new-model-or-no-access line; no comparison is called and no handle is used after
  the failed fetch. An exception raised there that is not an \<open>Exception\<close> leaves the
  job.
\<close>

theorem local_diff_schema_fetch_failures:
  assumes "connect_to_table env (connection dv) (join ''.'' (dev_path dv)) (primary_keys dv) (threads dv) = Inr t1"
    and "connect_to_table env (connection dv) (join ''.'' (prod_path dv)) (primary_keys dv) (threads dv) = Inr t2"
  shows
    "(get_schema env t1 = Inl ex \<longrightarrow>
        local_diff env dv =
          ([Connect_to_table (join ''.'' (dev_path dv)) (primary_keys dv) (threads dv),
            Connect_to_table (join ''.'' (prod_path dv)) (primary_keys dv) (threads dv),
            Get_schema t1],
           Inl ex)) \<and>
     (get_schema env t1 = Inr a \<and> get_schema env t2 = Inl ex \<and> isinstance_Exception ex \<longrightarrow>
        local_diff env dv =
          ([Connect_to_table (join ''.'' (dev_path dv)) (primary_keys dv) (threads dv),
            Connect_to_table (join ''.'' (prod_path dv)) (primary_keys dv) (threads dv),
            Get_schema t1, Get_schema t2, Logger_debug ex,
            Print (diff_output_base (join ''.'' (dev_path dv)) (join ''.'' (prod_path dv))
                   @ [Str ''[red]New model or no access to prod table.[/] \<newline>''])],
           Inr ())) \<and>
     (get_schema env t1 = Inr a \<and> get_schema env t2 = Inl ex \<and> \<not> isinstance_Exception ex \<longrightarrow>
        local_diff env dv =
          ([Connect_to_table (join ''.'' (dev_path dv)) (primary_keys dv) (threads dv),
            Connect_to_table (join ''.'' (prod_path dv)) (primary_keys dv) (threads dv),
            Get_schema t1, Get_schema t2],
           Inl ex))"
  using assms by (simp add: local_diff_def Let_def)

text \<open>The example with an unreadable prod table, and with an unreadable dev table.\<close>

theorem local_diff_schema_fetch_failures_witness:
  "connect_to_table example_local_env_no_prod (connection example_vars)
       (join ''.'' (dev_path example_vars)) (primary_keys example_vars) (threads example_vars)
     = Inr ''db.dev.m'' \<and>
   connect_to_table example_local_env_no_prod (connection example_vars)
       (join ''.'' (prod_path example_vars)) (primary_keys example_vars) (threads example_vars)
     = Inr ''db.prod.m'' \<and>
   get_schema example_local_env_no_prod ''db.dev.m'' = Inr example_dev_schema \<and>
   get_schema example_local_env_no_prod ''db.prod.m''
     = Inl (Error ''ProgrammingError'' ''relation does not exist'') \<and>
   isinstance_Exception (Error ''ProgrammingError'' ''relation does not exist'') \<and>
   local_diff example_local_env_no_prod example_vars =
     ([Connect_to_table ''db.dev.m'' [''id''] None, Connect_to_table ''db.prod.m'' [''id''] None,
       Get_schema ''db.dev.m'', Get_schema ''db.prod.m'',
       Logger_debug (Error ''ProgrammingError'' ''relation does not exist''),
       Print [Str ''\<newline>[green]db.prod.m <> db.dev.m[/] \<newline>'',
              Str ''[red]New model or no access to prod table.[/] \<newline>'']],
      Inr ()) \<and>
   get_schema example_local_env_no_dev ''db.dev.m''
     = Inl (Error ''ProgrammingError'' ''relation does not exist'') \<and>
   snd (local_diff example_local_env_no_dev example_vars)
     = Inl (Error ''ProgrammingError'' ''relation does not exist'')"
proof -
  have c1: "connect_to_table example_local_env_no_prod (connection example_vars)
       (join ''.'' (dev_path example_vars)) (primary_keys example_vars) (threads example_vars)
     = Inr ''db.dev.m''"
    by (simp add: example_local_env_no_prod_def example_local_env_def example_vars_def)
  have c2: "connect_to_table example_local_env_no_prod (connection example_vars)
       (join ''.'' (prod_path example_vars)) (primary_keys example_vars) (threads example_vars)
     = Inr ''db.prod.m''"
    by (simp add: example_local_env_no_prod_def example_local_env_def example_vars_def)
  have d1: "connect_to_table example_local_env_no_dev (connection example_vars)
       (join ''.'' (dev_path example_vars)) (primary_keys example_vars) (threads example_vars)
     = Inr ''db.dev.m''"
    by (simp add: example_local_env_no_dev_def example_local_env_def example_vars_def)
  have d2: "connect_to_table example_local_env_no_dev (connection example_vars)
       (join ''.'' (prod_path example_vars)) (primary_keys example_vars) (threads example_vars)
     = Inr ''db.prod.m''"
    by (simp add: example_local_env_no_dev_def example_local_env_def example_vars_def)
  have s1: "get_schema example_local_env_no_prod ''db.dev.m'' = Inr example_dev_schema"
    by (simp add: example_local_env_no_prod_def)
  have s2: "get_schema example_local_env_no_prod ''db.prod.m''
     = Inl (Error ''ProgrammingError'' ''relation does not exist'')"
    by (simp add: example_local_env_no_prod_def)
  have s3: "get_schema example_local_env_no_dev ''db.dev.m''
     = Inl (Error ''ProgrammingError'' ''relation does not exist'')"
    by (simp add: example_local_env_no_dev_def)
  have i: "isinstance_Exception (Error ''ProgrammingError'' ''relation does not exist'')"
    by simp
  from local_diff_schema_fetch_failures [OF c1 c2,
      of "Error ''ProgrammingError'' ''relation does not exist''" example_dev_schema] s1 s2 i
  have skip: "local_diff example_local_env_no_prod example_vars =
     ([Connect_to_table ''db.dev.m'' [''id''] None, Connect_to_table ''db.prod.m'' [''id''] None,
       Get_schema ''db.dev.m'', Get_schema ''db.prod.m'',
       Logger_debug (Error ''ProgrammingError'' ''relation does not exist''),
       Print [Str ''\<newline>[green]db.prod.m <> db.dev.m[/] \<newline>'',
              Str ''[red]New model or no access to prod table.[/] \<newline>'']],
      Inr ())"
    by (simp add: example_vars_def diff_output_base_def)
  from local_diff_schema_fetch_failures [OF d1 d2,
      of "Error ''ProgrammingError'' ''relation does not exist''" example_dev_schema] s3
  have raised: "snd (local_diff example_local_env_no_dev example_vars)
     = Inl (Error ''ProgrammingError'' ''relation does not exist'')"
    by simp
  from c1 c2 s1 s2 s3 i skip raised show ?thesis by blast
qed

section \<open>Custom schemas\<close>

lemma str_replace_nonempty:
  "old \<noteq> [] \<Longrightarrow> new \<noteq> [] \<Longrightarrow> s \<noteq> [] \<Longrightarrow> str_replace old new s \<noteq> []"
  by (subst str_replace.simps) simp

lemma example_replace:
  "str_replace ''<custom_schema>'' ''marketing'' ''prod_<custom_schema>'' = ''prod_marketing''"
  by (simp add: str_replace.simps)

text \<open>
  C3, as the claim states it, fails when the project sets no prod schema: a model with a
  custom schema and no template then resolves, with the dev schema as its prod schema.
\<close>

theorem custom_schema_without_prod_schema_counterexample:
  "truthy (model_config.schema (config example_custom_model)) \<and>
   get_diff_vars example_parser None None None example_custom_model
     = Inr (example_vars\<lparr>prod_path := [''db'', ''dev'', ''m'']\<rparr>)"
  by (simp add: get_diff_vars_def resolve_prod_schema_def example_parser_def example_model_def
      example_custom_model_def example_vars_def truthy_def qualified_list_def Let_def)

text \<open>
  C3, amended. For a model with a custom schema in a project that sets a prod schema:
  without a custom-schema template the resolution raises a \<open>ValueError\<close>; with a template
  it returns, and the prod path is the prod database (when there is one), then the
  template with every \<open><custom_schema>\<close> replaced by the model's custom schema
  (upper-cased when the connection requires it), then the alias (when there is one).
\<close>

theorem custom_schema_resolution:
  assumes "truthy (model_config.schema (config model))"
    and "truthy config_prod_schema"
  shows "(\<not> truthy config_prod_custom_schema \<longrightarrow>
           (\<exists>msg. get_diff_vars dbt_parser config_prod_database config_prod_schema
                     config_prod_custom_schema model = Inl (ValueError msg))) \<and>
         (truthy config_prod_custom_schema \<longrightarrow>
           (\<exists>diff_vars prod_database.
              get_diff_vars dbt_parser config_prod_database config_prod_schema
                config_prod_custom_schema model = Inr diff_vars \<and>
              prod_path diff_vars =
                qualified_list (requires_upper dbt_parser) [prod_database]
                @ [if requires_upper dbt_parser
                   then upper (str_replace ''<custom_schema>''
                                 (the (model_config.schema (config model)))
                                 (the config_prod_custom_schema))
                   else str_replace ''<custom_schema>''
                          (the (model_config.schema (config model)))
                          (the config_prod_custom_schema)]
                @ qualified_list (requires_upper dbt_parser) [alias' model]))"
proof (intro conjI impI)
  assume "\<not> truthy config_prod_custom_schema"
  with assms
  show "\<exists>msg. get_diff_vars dbt_parser config_prod_database config_prod_schema
                config_prod_custom_schema model = Inl (ValueError msg)"
    by (simp add: get_diff_vars_def resolve_prod_schema_def Let_def)
next
  let ?s = "str_replace ''<custom_schema>'' (the (model_config.schema (config model)))
              (the config_prod_custom_schema)"
  assume template: "truthy config_prod_custom_schema"
  with assms(1) have "?s \<noteq> []"
    by (auto simp: truthy_def str_replace_nonempty split: option.splits)
  then have kept: "truthy (Some ?s)"
    by (simp add: truthy_def)
  from assms template
  have "resolve_prod_schema config_prod_schema config_prod_custom_schema model = Inr (Some ?s)"
    by (simp add: resolve_prod_schema_def Let_def)
  with kept
  show "\<exists>diff_vars prod_database.
          get_diff_vars dbt_parser config_prod_database config_prod_schema
            config_prod_custom_schema model = Inr diff_vars \<and>
          prod_path diff_vars =
            qualified_list (requires_upper dbt_parser) [prod_database]
            @ [if requires_upper dbt_parser then upper ?s else ?s]
            @ qualified_list (requires_upper dbt_parser) [alias' model]"
    by (auto simp: get_diff_vars_def qualified_list_def Let_def)
qed

text \<open>
  The model with the custom schema \<open>marketing\<close> in a project with the prod schema
  \<open>prod\<close>: with the template \<open>prod_<custom_schema>\<close> its prod path is
  \<open>db.prod_marketing.m\<close>, without a template the resolution raises.
\<close>

theorem custom_schema_resolution_witness:
  "truthy (model_config.schema (config example_custom_model)) \<and>
   truthy (Some ''prod'') \<and>
   truthy (Some ''prod_<custom_schema>'') \<and>
   get_diff_vars example_parser None (Some ''prod'') (Some ''prod_<custom_schema>'')
       example_custom_model
     = Inr (example_vars\<lparr>prod_path := [''db'', ''prod_marketing'', ''m'']\<rparr>) \<and>
   isl (get_diff_vars example_parser None (Some ''prod'') None example_custom_model)"
proof -
  have h1: "truthy (model_config.schema (config example_custom_model))"
    by (simp add: example_custom_model_def truthy_def)
  have h2: "truthy (Some ''prod'')"
    by (simp add: truthy_def)
  have h3: "truthy (Some ''prod_<custom_schema>'')"
    by (simp add: truthy_def)
  from custom_schema_resolution [OF h1 h2, of None example_parser None]
  have raised: "isl (get_diff_vars example_parser None (Some ''prod'') None example_custom_model)"
    by (auto simp: truthy_def)
  from custom_schema_resolution
         [OF h1 h2, of "Some ''prod_<custom_schema>''" example_parser None] h3
  obtain diff_vars where
    "get_diff_vars example_parser None (Some ''prod'') (Some ''prod_<custom_schema>'')
       example_custom_model = Inr diff_vars"
    by blast
  then have resolved:
    "get_diff_vars example_parser None (Some ''prod'') (Some ''prod_<custom_schema>'')
       example_custom_model
     = Inr (example_vars\<lparr>prod_path := [''db'', ''prod_marketing'', ''m'']\<rparr>)"
    by (simp add: get_diff_vars_def resolve_prod_schema_def example_parser_def
        example_model_def example_custom_model_def example_vars_def truthy_def
        qualified_list_def Let_def example_replace)
  from h1 h2 h3 resolved raised show ?thesis by blast
qed

section \<open>The dispatcher's loop\<close>

text \<open>The loop over a list of models is the loop over its front, then over its rest.\<close>

lemma dbt_diff_models_append:
  "dbt_diff_models env p cd cs ccs is_cloud ds (before @ after) n =
     (case dbt_diff_models env p cd cs ccs is_cloud ds before n of
        (finished, Inl ex) \<Rightarrow> (finished, Inl ex)
      | (finished, Inr n') \<Rightarrow>
          (let (events, result) = dbt_diff_models env p cd cs ccs is_cloud ds after n'
           in (finished @ events, result)))"
proof (induction before arbitrary: n)
  case Nil
  then show ?case by (simp split: prod.splits)
next
  case (Cons m ms)
  then show ?case
    by (auto simp: Let_def split: sum.splits prod.splits if_splits)
qed

lemma example_loop:
  "dbt_diff_models example_local_env example_parser None (Some ''prod'') None False 1
     [example_model] 0 = (example_local_events, Inr 0)"
  by (simp add: example_get_diff_vars example_local_diff) (simp add: example_vars_def)

lemma example_custom_model_raises:
  "isl (get_diff_vars example_parser None (Some ''prod'') None example_custom_model)"
  by (simp add: get_diff_vars_def resolve_prod_schema_def example_custom_model_def truthy_def
      Let_def)

text \<open>
  C6. When the loop reaches a model whose resolved primary-key list is empty, all it does
  for that model is print the header followed by the skipped-due-to-unknown-primary-key
  notice: no local job is run and no remote job is started. It then goes on with the
  models that follow, with the same started jobs.
\<close>

theorem unknown_primary_key_skipped:
  assumes "get_diff_vars p cd cs ccs model = Inr diff_vars"
    and "primary_keys diff_vars = []"
    and "dbt_diff_models env p cd cs ccs is_cloud ds before n = (finished, Inr n')"
  shows "dbt_diff_models env p cd cs ccs is_cloud ds (before @ model # after) n =
           (finished
            @ [Print (diff_output_base (join ''.'' (dev_path diff_vars))
                        (join ''.'' (prod_path diff_vars))
                      @ [Str ''Skipped due to unknown primary key. Add uniqueness tests, meta, or tags.\<newline>''])]
            @ fst (dbt_diff_models env p cd cs ccs is_cloud ds after n'),
            snd (dbt_diff_models env p cd cs ccs is_cloud ds after n'))"
  using assms by (simp add: dbt_diff_models_append Let_def split: prod.splits)

text \<open>
  The model \<open>nokey\<close> between two runs of the example model: the example's local run, the
  notice, the example's local run again.
\<close>

theorem unknown_primary_key_skipped_witness:
  "get_diff_vars example_parser None (Some ''prod'') None example_model_no_key
     = Inr (example_vars\<lparr>dev_path := [''db'', ''dev'', ''nokey''],
                         prod_path := [''db'', ''prod'', ''nokey''], primary_keys := []\<rparr>) \<and>
   primary_keys (example_vars\<lparr>dev_path := [''db'', ''dev'', ''nokey''],
                   prod_path := [''db'', ''prod'', ''nokey''], primary_keys := []\<rparr>) = [] \<and>
   dbt_diff_models example_local_env example_parser None (Some ''prod'') None False 1
     [example_model] 0 = (example_local_events, Inr 0) \<and>
   dbt_diff_models example_local_env example_parser None (Some ''prod'') None False 1
     [example_model, example_model_no_key, example_model] 0 =
     (example_local_events
      @ [Print [Str ''\<newline>[green]db.prod.nokey <> db.dev.nokey[/] \<newline>'',
                Str ''Skipped due to unknown primary key. Add uniqueness tests, meta, or tags.\<newline>'']]
      @ example_local_events,
      Inr 0)"
proof -
  let ?vars = "example_vars\<lparr>dev_path := [''db'', ''dev'', ''nokey''],
                 prod_path := [''db'', ''prod'', ''nokey''], primary_keys := []\<rparr>"
  have h1: "get_diff_vars example_parser None (Some ''prod'') None example_model_no_key
              = Inr ?vars"
    by (simp add: get_diff_vars_def resolve_prod_schema_def example_parser_def
        example_model_def example_model_no_key_def example_vars_def truthy_def
        qualified_list_def Let_def)
  have h2: "primary_keys ?vars = []"
    by simp
  have notice:
    "diff_output_base (join ''.'' (dev_path ?vars)) (join ''.'' (prod_path ?vars))
     @ [Str ''Skipped due to unknown primary key. Add uniqueness tests, meta, or tags.\<newline>'']
     = [Str ''\<newline>[green]db.prod.nokey <> db.dev.nokey[/] \<newline>'',
        Str ''Skipped due to unknown primary key. Add uniqueness tests, meta, or tags.\<newline>'']"
    by (simp add: diff_output_base_def)
  have models: "[example_model] @ example_model_no_key # [example_model]
                  = [example_model, example_model_no_key, example_model]"
    by simp
  have "dbt_diff_models example_local_env example_parser None (Some ''prod'') None False 1
     [example_model, example_model_no_key, example_model] 0 =
     (example_local_events
      @ [Print [Str ''\<newline>[green]db.prod.nokey <> db.dev.nokey[/] \<newline>'',
                Str ''Skipped due to unknown primary key. Add uniqueness tests, meta, or tags.\<newline>'']]
      @ example_local_events,
      Inr 0)"
    using unknown_primary_key_skipped [OF h1 h2 example_loop, of "[example_model]"]
    by (simp only: notice models example_loop fst_conv snd_conv)
  with h1 h2 example_loop show ?thesis by blast
qed

text \<open>
  C7, as the claim states it, fails: the variables of a model are resolved when the loop
  reaches it. With the example model before the model whose resolution raises, the
  example has been compared and its report printed when the error is raised.
\<close>

theorem models_before_the_error_are_diffed_counterexample:
  "isl (get_diff_vars example_parser None (Some ''prod'') None example_custom_model) \<and>
   isl (snd (dbt_diff example_local_env example_parser None (Some ''prod'') None False 1
               [example_model, example_custom_model])) \<and>
   fst (dbt_diff example_local_env example_parser None (Some ''prod'') None False 1
          [example_model, example_custom_model]) =
     [Connect_to_table ''db.dev.m'' [''id''] None, Connect_to_table ''db.prod.m'' [''id''] None,
      Get_schema ''db.dev.m'', Get_schema ''db.prod.m'',
      Diff_tables ''db.dev.m'' ''db.prod.m'' {''a''} None,
      Print [Str ''\<newline>[green]db.prod.m <> db.dev.m[/] \<newline>'',
             Columns_added_template (Column_set {''b''}),
             Columns_removed_template (Column_set {''c''}),
             Columns_type_changed_template (Column_set {''d''}),
             No_differences_template]]"
proof -
  from example_custom_model_raises obtain ex where
    "get_diff_vars example_parser None (Some ''prod'') None example_custom_model = Inl ex"
    by (cases "get_diff_vars example_parser None (Some ''prod'') None example_custom_model")
      auto
  then have "dbt_diff example_local_env example_parser None (Some ''prod'') None False 1
               [example_model, example_custom_model] = (example_local_events, Inl ex)"
    by (simp add: dbt_diff_def example_get_diff_vars example_local_diff)
      (simp add: example_vars_def)
  with example_custom_model_raises show ?thesis
    by (simp add: example_local_events_def)
qed

text \<open>
  C7, amended. When the resolution of a model raises, the run ends with that error at
  that model: every model before it has been dispatched, with whatever that did (a local
  job compared and reported, a remote job started), and nothing is done for the model
  itself or for any model after it; the started jobs are not joined.
\<close>

theorem resolution_error_aborts_at_its_model:
  assumes "get_diff_vars p cd cs ccs model = Inl ex"
    and "dbt_diff_models env p cd cs ccs is_cloud ds before 0 = (finished, Inr n')"
  shows "dbt_diff env p cd cs ccs is_cloud ds (before @ model # after) = (finished, Inl ex)"
  using assms by (simp add: dbt_diff_def dbt_diff_models_append Let_def split: prod.splits)

text \<open>The example model, the model whose resolution raises, the example model again.\<close>

theorem resolution_error_aborts_witness:
  "isl (get_diff_vars example_parser None (Some ''prod'') None example_custom_model) \<and>
   dbt_diff_models example_local_env example_parser None (Some ''prod'') None False 1
     [example_model] 0 = (example_local_events, Inr 0) \<and>
   fst (dbt_diff example_local_env example_parser None (Some ''prod'') None False 1
          [example_model, example_custom_model, example_model]) = example_local_events \<and>
   isl (snd (dbt_diff example_local_env example_parser None (Some ''prod'') None False 1
               [example_model, example_custom_model, example_model]))"
proof -
  from example_custom_model_raises obtain ex where
    raised: "get_diff_vars example_parser None (Some ''prod'') None example_custom_model = Inl ex"
    by (cases "get_diff_vars example_parser None (Some ''prod'') None example_custom_model")
      auto
  have models: "[example_model] @ example_custom_model # [example_model]
                  = [example_model, example_custom_model, example_model]"
    by simp
  have "dbt_diff example_local_env example_parser None (Some ''prod'') None False 1
          [example_model, example_custom_model, example_model] = (example_local_events, Inl ex)"
    using resolution_error_aborts_at_its_model [OF raised example_loop, of "[example_model]"]
    by (simp only: models)
  with example_custom_model_raises example_loop show ?thesis by simp
qed

section \<open>The remote runner's report\<close>

lemma diff_percent_list_snoc:
  "diff_percent_list f (xs @ [x]) =
     (if match x \<noteq> Finite 100
      then (diff_percent_list f xs)(column_name x \<mapsto> f (match x) @ ''%'')
      else diff_percent_list f xs)"
  by (simp add: diff_percent_list_def)

lemma dom_diff_percent_list:
  "dom (diff_percent_list f xs) = column_name ` {x \<in> set xs. match x \<noteq> Finite 100}"
  by (induction xs rule: rev_induct) (auto simp: diff_percent_list_snoc diff_percent_list_def)

lemma diff_percent_list_lookup:
  "distinct (map column_name xs) \<Longrightarrow> x \<in> set xs \<Longrightarrow> match x \<noteq> Finite 100 \<Longrightarrow>
     diff_percent_list f xs (column_name x) = Some (f (match x) @ ''%'')"
proof (induction xs rule: rev_induct)
  case Nil
  then show ?case by simp
next
  case (snoc y ys)
  show ?case
  proof (cases "x = y")
    case True
    with snoc.prems show ?thesis by (simp add: diff_percent_list_snoc)
  next
    case False
    with snoc.prems have mem: "x \<in> set ys" and dist: "distinct (map column_name ys)"
      and new: "column_name y \<notin> column_name ` set ys"
      by auto
    from mem have "column_name x \<in> column_name ` set ys" by (rule imageI)
    with new have "column_name x \<noteq> column_name y" by metis
    with snoc.IH [OF dist mem snoc.prems(3)] show ?thesis
      by (simp add: diff_percent_list_snoc)
  qed
qed

lemma cloud_diff_with_results:
  assumes "dev_path dv \<noteq> []"
    and "create_data_diff a (cloud_payload dv ds) = Inr (Some i)"
    and "poll_data_diff_results a i = Inr res"
  shows "fst (cloud_diff env dv ds a org) =
           (if is_tracking_enabled env
            then [Run_as_daemon_send_event_json (Start_event_json True ds)] else [])
           @ [Create_data_diff (cloud_payload dv ds),
              Print [Str (last (dev_path dv) @ '': '' @ overview_url a (Some i))],
              Poll_data_diff_results i,
              Print (cloud_report (str_float env)
                       (diff_output_base (join ''.'' (dev_path dv)) (join ''.'' (prod_path dv)))
                       (overview_url a (Some i)) res)]
           @ (if is_tracking_enabled env
              then [Send_event_json
                      (End_event_json True None (Some i) True (org_id org) (org_name org)
                         (user_id org))]
              else [])"
  using assms
  by (simp add: cloud_diff_def cloud_try_def cloud_finally_def Let_def split: prod.splits sum.splits)

lemma cloud_report_template:
  assumes "Dbt_diff_string_template n1 n2 n3 s d l \<in> set (cloud_report f (diff_output_base d1 d2) url res)"
  shows "n1 = snd (exclusives (pks res)) \<and> n2 = fst (exclusives (pks res)) \<and>
         n3 = rows_with_differences (values' res) \<and>
         s = str_int (total_rows (values' res) - rows_with_differences (values' res)) \<and>
         d = diff_percent_list f (columns_diff_stats (values' res)) \<and>
         l = ''Value Match Percent:''"
  using assms by (auto simp: cloud_report_def diff_output_base_def Let_def split: if_splits)

lemma cloud_report_no_differences:
  "No_differences_template \<in> set (cloud_report f (diff_output_base d1 d2) url res) \<longleftrightarrow>
     snd (exclusives (pks res)) = 0 \<and> fst (exclusives (pks res)) = 0 \<and>
     rows_with_differences (values' res) = 0"
  by (auto simp: cloud_report_def diff_output_base_def Let_def split: if_splits)

lemma cloud_report_has_template:
  "Dbt_diff_string_template (snd (exclusives (pks res))) (fst (exclusives (pks res)))
      (rows_with_differences (values' res))
      (str_int (total_rows (values' res) - rows_with_differences (values' res)))
      (diff_percent_list f (columns_diff_stats (values' res))) ''Value Match Percent:''
     \<in> set (cloud_report f (diff_output_base d1 d2) url res) \<longleftrightarrow>
   \<not> (snd (exclusives (pks res)) = 0 \<and> fst (exclusives (pks res)) = 0 \<and>
     rows_with_differences (values' res) = 0)"
  by (auto simp: cloud_report_def diff_output_base_def Let_def split: if_splits)

lemma example_payload:
  "cloud_payload example_vars 1 =
     TCloudApiDataDiff 1 1 [''db'', ''prod'', ''m''] [''db'', ''dev'', ''m''] [''id''] None None [] []"
  by (simp add: cloud_payload_def example_vars_def)

lemma example_report:
  "cloud_report example_str_float (diff_output_base ''db.dev.m'' ''db.prod.m'')
      ''https://app.datafold.com/datadiffs/7/overview'' example_results =
     [Str ''\<newline>[green]db.prod.m <> db.dev.m[/] \<newline>'',
      Columns_added_template (Column_list [''b'']),
      Columns_removed_template (Column_list [''c'']),
      Columns_type_changed_template (Column_list [''d'']),
      Str ''\<newline>https://app.datafold.com/datadiffs/7/overview\<newline> '',
      Dbt_diff_string_template 3 2 5 ''95'' [''a'' \<mapsto> ''95.0%''] ''Value Match Percent:'',
      Str '' \<newline>'']"
  by (simp add: cloud_report_def diff_output_base_def example_results_def Let_def
      diff_percent_list_def example_str_float_def str_int_def str_nat.simps)

lemma example_url:
  "overview_url example_api (Some 7) = ''https://app.datafold.com/datadiffs/7/overview''"
  by (simp add: overview_url_def example_api_def str_optional_int_def str_int_def str_nat.simps)

text \<open>
  C5. In a remote run that reaches a result document, the printed report is built from
  it: a row summary in the report has the second component of the exclusivity pair as
  rows added, the first as rows removed, the rows with differences as rows updated and
  the total minus the rows with differences as rows unchanged; the report has that
  summary if and only if one of the three counts is not zero, and it has the
  no-differences line if and only if all three are zero.
\<close>

theorem remote_row_counts:
  assumes "dev_path dv \<noteq> []"
    and "create_data_diff a (cloud_payload dv ds) = Inr (Some i)"
    and "poll_data_diff_results a i = Inr res"
  shows "\<exists>report.
     Print report \<in> set (fst (cloud_diff env dv ds a org)) \<and>
     report = cloud_report (str_float env)
                (diff_output_base (join ''.'' (dev_path dv)) (join ''.'' (prod_path dv)))
                (overview_url a (Some i)) res \<and>
     (\<forall>n1 n2 n3 s d l. Dbt_diff_string_template n1 n2 n3 s d l \<in> set report \<longrightarrow>
        n1 = snd (exclusives (pks res)) \<and> n2 = fst (exclusives (pks res)) \<and>
        n3 = rows_with_differences (values' res) \<and>
        s = str_int (total_rows (values' res) - rows_with_differences (values' res))) \<and>
     ((\<exists>d. Dbt_diff_string_template (snd (exclusives (pks res))) (fst (exclusives (pks res)))
           (rows_with_differences (values' res))
           (str_int (total_rows (values' res) - rows_with_differences (values' res)))
           d ''Value Match Percent:'' \<in> set report)
      \<longleftrightarrow> \<not> (snd (exclusives (pks res)) = 0 \<and> fst (exclusives (pks res)) = 0 \<and>
             rows_with_differences (values' res) = 0)) \<and>
     (No_differences_template \<in> set report
      \<longleftrightarrow> snd (exclusives (pks res)) = 0 \<and> fst (exclusives (pks res)) = 0 \<and>
          rows_with_differences (values' res) = 0)"
proof -
  let ?report = "cloud_report (str_float env)
                (diff_output_base (join ''.'' (dev_path dv)) (join ''.'' (prod_path dv)))
                (overview_url a (Some i)) res"
  have printed: "Print ?report \<in> set (fst (cloud_diff env dv ds a org))"
    by (simp add: cloud_diff_with_results [OF assms])
  have counts: "\<forall>n1 n2 n3 s d l. Dbt_diff_string_template n1 n2 n3 s d l \<in> set ?report \<longrightarrow>
        n1 = snd (exclusives (pks res)) \<and> n2 = fst (exclusives (pks res)) \<and>
        n3 = rows_with_differences (values' res) \<and>
        s = str_int (total_rows (values' res) - rows_with_differences (values' res))"
    using cloud_report_template by blast
  have delta: "(\<exists>d. Dbt_diff_string_template (snd (exclusives (pks res))) (fst (exclusives (pks res)))
           (rows_with_differences (values' res))
           (str_int (total_rows (values' res) - rows_with_differences (values' res)))
           d ''Value Match Percent:'' \<in> set ?report)
      \<longleftrightarrow> \<not> (snd (exclusives (pks res)) = 0 \<and> fst (exclusives (pks res)) = 0 \<and>
             rows_with_differences (values' res) = 0)"
    using cloud_report_has_template cloud_report_template by blast
  from printed counts delta cloud_report_no_differences show ?thesis by blast
qed


text \<open>The example document: 3 rows added, 2 removed, 5 updated, 95 unchanged.\<close>

theorem remote_row_counts_witness:
  "dev_path example_vars \<noteq> [] \<and>
   create_data_diff example_api (cloud_payload example_vars 1) = Inr (Some 7) \<and>
   poll_data_diff_results example_api 7 = Inr example_results \<and>
   Print [Str ''\<newline>[green]db.prod.m <> db.dev.m[/] \<newline>'',
      Columns_added_template (Column_list [''b'']),
      Columns_removed_template (Column_list [''c'']),
      Columns_type_changed_template (Column_list [''d'']),
      Str ''\<newline>https://app.datafold.com/datadiffs/7/overview\<newline> '',
      Dbt_diff_string_template 3 2 5 ''95'' [''a'' \<mapsto> ''95.0%''] ''Value Match Percent:'',
      Str '' \<newline>'']
     \<in> set (fst (cloud_diff example_cloud_env example_vars 1 example_api example_org
                    :: (string, unit) run))"
proof -
  have h1: "dev_path example_vars \<noteq> []"
    by (simp add: example_vars_def)
  have h2: "create_data_diff example_api (cloud_payload example_vars 1) = Inr (Some 7)"
    by (simp add: example_api_def)
  have h3: "poll_data_diff_results example_api 7 = Inr example_results"
    by (simp add: example_api_def)
  from remote_row_counts [OF h1 h2 h3, of example_cloud_env example_org]
  have "Print (cloud_report (str_float example_cloud_env)
                (diff_output_base (join ''.'' (dev_path example_vars))
                   (join ''.'' (prod_path example_vars)))
                (overview_url example_api (Some 7)) example_results)
        \<in> set (fst (cloud_diff example_cloud_env example_vars 1 example_api example_org
                       :: (string, unit) run))"
    by blast
  then have "Print [Str ''\<newline>[green]db.prod.m <> db.dev.m[/] \<newline>'',
      Columns_added_template (Column_list [''b'']),
      Columns_removed_template (Column_list [''c'']),
      Columns_type_changed_template (Column_list [''d'']),
      Str ''\<newline>https://app.datafold.com/datadiffs/7/overview\<newline> '',
      Dbt_diff_string_template 3 2 5 ''95'' [''a'' \<mapsto> ''95.0%''] ''Value Match Percent:'',
      Str '' \<newline>'']
     \<in> set (fst (cloud_diff example_cloud_env example_vars 1 example_api example_org
                    :: (string, unit) run))"
    by (simp add: example_url example_report [symmetric] example_cloud_env_def example_vars_def)
  with h1 h2 h3 show ?thesis by blast
qed

text \<open>
  C9, as the claim states it, fails for a match percentage above 100: the code drops the
  columns whose percentage equals 100 and keeps every other one.
\<close>

theorem match_above_100_counterexample:
  "columns_diff_stats (values' example_overfull_results)
     = [\<lparr>column_name = ''a'', match = Finite 150\<rparr>] \<and>
   (100 :: real) \<le> 150 \<and>
   poll_data_diff_results example_api_overfull 7 = Inr example_overfull_results \<and>
   Print [Str ''\<newline>[green]db.prod.m <> db.dev.m[/] \<newline>'',
      Columns_added_template (Column_list [''b'']),
      Columns_removed_template (Column_list [''c'']),
      Columns_type_changed_template (Column_list [''d'']),
      Str ''\<newline>https://app.datafold.com/datadiffs/7/overview\<newline> '',
      Dbt_diff_string_template 3 2 5 ''95'' [''a'' \<mapsto> ''150.0%''] ''Value Match Percent:'',
      Str '' \<newline>'']
     \<in> set (fst (cloud_diff example_cloud_env example_vars 1 example_api_overfull example_org
                    :: (string, unit) run))"
  by (simp add: cloud_diff_def cloud_try_def cloud_finally_def cloud_report_def Let_def
      diff_percent_list_def diff_output_base_def cloud_payload_def overview_url_def
      example_cloud_env_def example_api_overfull_def example_api_def example_org_def
      example_vars_def example_overfull_results_def example_results_def example_str_float_def
      str_optional_int_def str_int_def str_nat.simps)

text \<open>
  C9, amended. In a remote run that reaches a result document, the per-column map of the
  report's row summary has exactly the columns with a statistic whose match percentage
  is not 100; when no column has two statistics, every such column is mapped to its
  percentage followed by the percent sign. In particular a column with no statistic
  other than 100 is left out, and a column below 100 is in the map.
\<close>

theorem match_percent_map:
  assumes "dev_path dv \<noteq> []"
    and "create_data_diff a (cloud_payload dv ds) = Inr (Some i)"
    and "poll_data_diff_results a i = Inr res"
    and "Print report \<in> set (fst (cloud_diff env dv ds a org))"
    and "Dbt_diff_string_template n1 n2 n3 s d l \<in> set report"
  shows "dom d = column_name ` {x \<in> set (columns_diff_stats (values' res)). match x \<noteq> Finite 100} \<and>
         (distinct (map column_name (columns_diff_stats (values' res))) \<longrightarrow>
            (\<forall>x\<in>set (columns_diff_stats (values' res)).
               match x \<noteq> Finite 100 \<longrightarrow>
               d (column_name x) = Some (str_float env (match x) @ ''%'')))"
proof -
  from assms(4,5)
  have "Dbt_diff_string_template n1 n2 n3 s d l
          \<in> set (cloud_report (str_float env)
                   (diff_output_base (join ''.'' (dev_path dv)) (join ''.'' (prod_path dv)))
                   (overview_url a (Some i)) res)"
    by (auto simp: cloud_diff_with_results [OF assms(1-3)] split: if_splits)
  then have "d = diff_percent_list (str_float env) (columns_diff_stats (values' res))"
    using cloud_report_template by blast
  then show ?thesis
    by (simp add: dom_diff_percent_list diff_percent_list_lookup)
qed

text \<open>On the example document only the column \<open>a\<close>, at 95, is in the map.\<close>

theorem match_percent_map_witness:
  "dev_path example_vars \<noteq> [] \<and>
   create_data_diff example_api (cloud_payload example_vars 1) = Inr (Some 7) \<and>
   poll_data_diff_results example_api 7 = Inr example_results \<and>
   Print (cloud_report example_str_float (diff_output_base ''db.dev.m'' ''db.prod.m'')
            ''https://app.datafold.com/datadiffs/7/overview'' example_results)
     \<in> set (fst (cloud_diff example_cloud_env example_vars 1 example_api example_org
                    :: (string, unit) run)) \<and>
   Dbt_diff_string_template 3 2 5 ''95'' [''a'' \<mapsto> ''95.0%''] ''Value Match Percent:''
     \<in> set (cloud_report example_str_float (diff_output_base ''db.dev.m'' ''db.prod.m'')
               ''https://app.datafold.com/datadiffs/7/overview'' example_results) \<and>
   distinct (map column_name (columns_diff_stats (values' example_results))) \<and>
   column_name ` {x \<in> set (columns_diff_stats (values' example_results)). match x \<noteq> Finite 100}
     = {''a''}"
proof -
  have h1: "dev_path example_vars \<noteq> []"
    by (simp add: example_vars_def)
  have h2: "create_data_diff example_api (cloud_payload example_vars 1) = Inr (Some 7)"
    by (simp add: example_api_def)
  have h3: "poll_data_diff_results example_api 7 = Inr example_results"
    by (simp add: example_api_def)
  have h4: "Print (cloud_report example_str_float (diff_output_base ''db.dev.m'' ''db.prod.m'')
                     ''https://app.datafold.com/datadiffs/7/overview'' example_results)
     \<in> set (fst (cloud_diff example_cloud_env example_vars 1 example_api example_org
                    :: (string, unit) run))"
    by (simp add: cloud_diff_with_results [OF h1 h2 h3] example_url)
      (simp add: example_cloud_env_def example_vars_def)
  have h5: "Dbt_diff_string_template 3 2 5 ''95'' [''a'' \<mapsto> ''95.0%''] ''Value Match Percent:''
     \<in> set (cloud_report example_str_float (diff_output_base ''db.dev.m'' ''db.prod.m'')
               ''https://app.datafold.com/datadiffs/7/overview'' example_results)"
    by (simp add: example_report)
  have h6: "distinct (map column_name (columns_diff_stats (values' example_results)))"
    by (simp add: example_results_def)
  from match_percent_map [OF h1 h2 h3 h4 h5]
  have "dom [''a'' \<mapsto> ''95.0%'']
          = column_name ` {x \<in> set (columns_diff_stats (values' example_results)).
                             match x \<noteq> Finite 100}"
    by blast
  then have "column_name ` {x \<in> set (columns_diff_stats (values' example_results)).
                              match x \<noteq> Finite 100} = {''a''}"
    by simp
  with h1 h2 h3 h4 h5 h6 show ?thesis by blast
qed

section \<open>The job's link and its failure\<close>

text \<open>
  C10. In a remote run with a non-empty dev path, once the submission has returned, the
  next thing done is to print the table name and the detail-view link built from the
  returned value, whatever it is; polling comes after it. When no id was returned, the
  printed link reads \<open>/datadiffs/None/overview\<close>; what follows is the end record of the
  telemetry, when enabled, with the error and no success, and, unless sending it
  raises, the header and the logged error, and no further link.
\<close>

theorem url_printed_before_validation:
  assumes "dev_path dv \<noteq> []"
    and "create_data_diff a (cloud_payload dv ds) = Inr r"
  shows "\<exists>rest.
     fst (cloud_diff env dv ds a org) =
       (if is_tracking_enabled env
        then [Run_as_daemon_send_event_json (Start_event_json True ds)] else [])
       @ [Create_data_diff (cloud_payload dv ds),
          Print [Str (last (dev_path dv) @ '': '' @ host a @ ''/datadiffs/''
                      @ str_optional_int r @ ''/overview'')]]
       @ rest \<and>
     (\<forall>i. r = Some i \<longrightarrow> (\<exists>rest'. rest = Poll_data_diff_results i # rest')) \<and>
     (r = None \<longrightarrow>
        str_optional_int r = ''None'' \<and>
        rest =
          (if is_tracking_enabled env
           then [Send_event_json
                   (End_event_json False
                      (Some (Exception ''Api response did not contain a diff_id'')) None True
                      (org_id org) (org_name org) (user_id org))]
           else [])
          @ (if is_tracking_enabled env \<and>
                isl (send_event_json env
                       (End_event_json False
                          (Some (Exception ''Api response did not contain a diff_id'')) None
                          True (org_id org) (org_name org) (user_id org)))
             then []
             else [Print (diff_output_base (join ''.'' (dev_path dv))
                            (join ''.'' (prod_path dv))),
                   Logger_error (Exception ''Api response did not contain a diff_id'')]))"
proof (cases r)
  case None
  with assms show ?thesis
    by (auto simp: cloud_diff_def cloud_try_def cloud_finally_def Let_def overview_url_def
        str_optional_int_def split: prod.splits sum.splits)
next
  case (Some i)
  with assms show ?thesis
    by (auto simp: cloud_diff_def cloud_try_def cloud_finally_def Let_def overview_url_def
        split: prod.splits sum.splits option.splits)
qed


text \<open>The example service returning no id.\<close>

theorem url_printed_before_validation_witness:
  "dev_path example_vars \<noteq> [] \<and>
   create_data_diff example_api_no_id (cloud_payload example_vars 1) = Inr None \<and>
   (cloud_diff example_cloud_env example_vars 1 example_api_no_id example_org
      :: (string, unit) run) =
     ([Run_as_daemon_send_event_json (Start_event_json True 1),
       Create_data_diff (cloud_payload example_vars 1),
       Print [Str ''m: https://app.datafold.com/datadiffs/None/overview''],
       Send_event_json
         (End_event_json False (Some (Exception ''Api response did not contain a diff_id''))
            None True 1 ''acme'' 2),
       Print [Str ''\<newline>[green]db.prod.m <> db.dev.m[/] \<newline>''],
       Logger_error (Exception ''Api response did not contain a diff_id'')],
      Inr ())"
proof -
  have h1: "dev_path example_vars \<noteq> []"
    by (simp add: example_vars_def)
  have h2: "create_data_diff example_api_no_id (cloud_payload example_vars 1) = Inr None"
    by (simp add: example_api_no_id_def)
  have result: "snd (cloud_diff example_cloud_env example_vars 1 example_api_no_id example_org
                       :: (string, unit) run) = Inr ()"
    by (simp add: cloud_diff_def cloud_try_def cloud_finally_def Let_def h2 h1
        example_cloud_env_def split: prod.splits)
  from url_printed_before_validation [OF h1 h2, of example_cloud_env example_org]
  have "fst (cloud_diff example_cloud_env example_vars 1 example_api_no_id example_org
               :: (string, unit) run) =
     [Run_as_daemon_send_event_json (Start_event_json True 1),
       Create_data_diff (cloud_payload example_vars 1),
       Print [Str ''m: https://app.datafold.com/datadiffs/None/overview''],
       Send_event_json
         (End_event_json False (Some (Exception ''Api response did not contain a diff_id''))
            None True 1 ''acme'' 2),
       Print [Str ''\<newline>[green]db.prod.m <> db.dev.m[/] \<newline>''],
       Logger_error (Exception ''Api response did not contain a diff_id'')]"
    by (auto simp: example_cloud_env_def example_api_no_id_def example_api_def
        example_org_def example_vars_def diff_output_base_def)
  with result h1 h2 show ?thesis
    by (simp add: prod_eq_iff)
qed

section \<open>Telemetry failures\<close>



end
